theory Spec2Isabelle
  imports Complex_Main "HOL-Library.AList"
begin

section \<open>Python values and exceptions\<close>

text \<open>
  The application is a Python script. Its data are the values that \<^verbatim>\<open>json.loads\<close>
  produces (a dictionary of JSON values per check), strings, and the exceptions that the
  calls of the script may raise. A Python \<^verbatim>\<open>str\<close> is modelled by the list of the bytes
  of its UTF-8 encoding; a dictionary by an association list with distinct keys, in
  insertion order.

  A Python \<^verbatim>\<open>float\<close> is modelled by the exact rational number it stands for, or one of
  the three special values. Rounding to binary64, overflow to infinity and the sign of
  zero are not part of the model.
\<close>

datatype pyfloat = Fin rat | PosInf | NegInf | NaN

datatype pyval =
    PNone
  | PBool bool
  | PInt int
  | PFloat pyfloat
  | PStr string
  | PList "pyval list"
  | PDict "(string \<times> pyval) list"

type_synonym pydict = "(string \<times> pyval) list"

datatype py_error =
    ServiceError
  | RasterizerError
  | ImageError
  | IndexError
  | AttributeError
  | JSONDecodeError
  | ValueError
  | TypeError

section \<open>String operations of the extractor\<close>

text \<open>
  The methods of \<^verbatim>\<open>str\<close> that \<^verbatim>\<open>parse_check\<close> calls. \<^verbatim>\<open>strip()\<close> removes the ASCII
  white space of Python (tab, line feed, vertical tab, form feed, carriage return, the
  separators 28 to 31 and the space); white space beyond ASCII is not modelled.
\<close>

definition isspace :: "char \<Rightarrow> bool" where
  "isspace c = (of_char c \<in> {9::nat, 10, 11, 12, 13, 28, 29, 30, 31, 32})"

definition strip :: "string \<Rightarrow> string" where
  "strip s = rev (dropWhile isspace (rev (dropWhile isspace s)))"

definition startswith :: "string \<Rightarrow> string \<Rightarrow> bool" where
  "startswith s p = (take (length p) s = p)"

text \<open>\<^verbatim>\<open>s.split(sep, 1)\<close> for a separator of one character: at most one cut, at the
  first occurrence.\<close>

definition split1 :: "char \<Rightarrow> string \<Rightarrow> string list" where
  "split1 sep s =
     (case dropWhile (\<lambda>c. c \<noteq> sep) s of
        [] \<Rightarrow> [s]
      | _ # after \<Rightarrow> [takeWhile (\<lambda>c. c \<noteq> sep) s, after])"

text \<open>\<^verbatim>\<open>s.rsplit(sep, 1)\<close>: at most one cut, at the last occurrence of the (non-empty)
  separator. \<open>before_last\<close> is the text before that occurrence, if there is one.\<close>

fun before_last :: "string \<Rightarrow> string \<Rightarrow> string option" where
  "before_last sep [] = None"
| "before_last sep (c # cs) =
     (case before_last sep cs of
        Some b \<Rightarrow> Some (c # b)
      | None \<Rightarrow> if startswith (c # cs) sep then Some [] else None)"

definition rsplit1 :: "string \<Rightarrow> string \<Rightarrow> string list" where
  "rsplit1 sep s =
     (case before_last sep s of
        None \<Rightarrow> [s]
      | Some b \<Rightarrow> [b, drop (length b + length sep) s])"

text \<open>Indexing a list raises \<^verbatim>\<open>IndexError\<close> out of range.\<close>

definition item :: "'a list \<Rightarrow> nat \<Rightarrow> py_error + 'a" where
  "item xs i = (if i < length xs then Inr (xs ! i) else Inl IndexError)"

text \<open>\<^verbatim>\<open>s.replace(c, "")\<close> for a pattern of one character deletes every occurrence.\<close>

definition replace_del :: "char \<Rightarrow> string \<Rightarrow> string" where
  "replace_del c s = filter (\<lambda>x. x \<noteq> c) s"

text \<open>
  \<^verbatim>\<open>re.search(r'\{[^{}]*\}', text, re.DOTALL)\<close>: the leftmost position at which an
  opening brace is followed by characters other than braces and then a closing brace.
  The starred class is greedy and can only stop at a brace, so a match at a position
  exists exactly when the next brace after the opening one is a closing one.
\<close>

definition not_brace :: "char \<Rightarrow> bool" where
  "not_brace c = (c \<noteq> CHR ''{'' \<and> c \<noteq> CHR ''}'')"

definition match_at :: "string \<Rightarrow> string option" where
  "match_at s =
     (case s of
        [] \<Rightarrow> None
      | c # cs \<Rightarrow>
          if c = CHR ''{'' then
            (case dropWhile not_brace cs of
               [] \<Rightarrow> None
             | d # _ \<Rightarrow>
                 if d = CHR ''}'' then Some (c # takeWhile not_brace cs @ [d]) else None)
          else None)"

fun re_search :: "string \<Rightarrow> string option" where
  "re_search [] = None"
| "re_search (c # cs) =
     (case match_at (c # cs) of
        Some m \<Rightarrow> Some m
      | None \<Rightarrow> re_search cs)"

section \<open>Numbers in text\<close>

definition isdigit :: "char \<Rightarrow> bool" where
  "isdigit c = (48 \<le> (of_char c :: nat) \<and> (of_char c :: nat) \<le> 57)"

definition digit_val :: "char \<Rightarrow> nat" where
  "digit_val c = of_char c - 48"

definition nat_of_digits :: "string \<Rightarrow> nat" where
  "nat_of_digits ds = foldl (\<lambda>n c. 10 * n + digit_val c) 0 ds"

text \<open>\<open>cut P s\<close> splits \<open>s\<close> at its first character satisfying \<open>P\<close>: the text before
  it, and the text after it when there is such a character.\<close>

definition cut :: "(char \<Rightarrow> bool) \<Rightarrow> string \<Rightarrow> string \<times> string option" where
  "cut P s =
     (takeWhile (\<lambda>c. \<not> P c) s,
      case dropWhile (\<lambda>c. \<not> P c) s of [] \<Rightarrow> None | _ # r \<Rightarrow> Some r)"

text \<open>The number \<open>\<plusminus> (i + f / 10\<^sup>k) \<sqdot> 10\<^sup>e\<close> written with integer digits \<open>ip\<close>, the \<open>k\<close>
  fraction digits \<open>fp\<close> and the exponent \<open>e\<close>.\<close>

definition scale10 :: "rat \<Rightarrow> int \<Rightarrow> rat" where
  "scale10 x e = (if 0 \<le> e then x * 10 ^ nat e else x / 10 ^ nat (- e))"

definition decimal_value :: "bool \<Rightarrow> string \<Rightarrow> string \<Rightarrow> int \<Rightarrow> rat" where
  "decimal_value neg ip fp e =
     (let m = of_nat (nat_of_digits ip) + of_nat (nat_of_digits fp) / 10 ^ length fp;
          v = scale10 m e
      in if neg then - v else v)"

text \<open>An optional sign in front of a text.\<close>

definition signed :: "string \<Rightarrow> bool \<times> string" where
  "signed s =
     (case s of
        [] \<Rightarrow> (False, [])
      | c # cs \<Rightarrow>
          if c = CHR ''-'' then (True, cs)
          else if c = CHR ''+'' then (False, cs)
          else (False, c # cs))"

definition is_e :: "char \<Rightarrow> bool" where
  "is_e c = (c = CHR ''e'' \<or> c = CHR ''E'')"

definition is_dot :: "char \<Rightarrow> bool" where
  "is_dot c = (c = CHR ''.'')"

subsection \<open>The built-in \<^verbatim>\<open>float\<close> on a string\<close>

text \<open>
  \<^verbatim>\<open>float(s)\<close> strips white space and accepts an optional sign followed by
  \<^verbatim>\<open>inf\<close>, \<^verbatim>\<open>infinity\<close> or \<^verbatim>\<open>nan\<close> in any letter case, or by a decimal literal: an
  integer part, a point, a fraction and an exponent, where one of the integer part and
  the fraction may be missing and single underscores may separate digits. Anything else
  raises \<^verbatim>\<open>ValueError\<close>. Digits and white space beyond ASCII are not modelled.
\<close>

definition lower :: "char \<Rightarrow> char" where
  "lower c =
     (if 65 \<le> (of_char c :: nat) \<and> (of_char c :: nat) \<le> 90
      then char_of (of_char c + (32::nat)) else c)"

fun no_double_underscore :: "string \<Rightarrow> bool" where
  "no_double_underscore (a # b # cs) =
     (\<not> (a = CHR ''_'' \<and> b = CHR ''_'') \<and> no_double_underscore (b # cs))"
| "no_double_underscore _ = True"

definition digitpart :: "string \<Rightarrow> bool" where
  "digitpart p =
     (p \<noteq> [] \<and> isdigit (hd p) \<and> isdigit (last p) \<and>
      list_all (\<lambda>c. isdigit c \<or> c = CHR ''_'') p \<and> no_double_underscore p)"

definition exponent :: "(string \<Rightarrow> bool) \<Rightarrow> string \<Rightarrow> int option" where
  "exponent ok s =
     (let (neg, ds) = signed s in
      if ok ds then
        Some (if neg then - int (nat_of_digits (filter isdigit ds))
              else int (nat_of_digits (filter isdigit ds)))
      else None)"

definition float_literal :: "string \<Rightarrow> rat option" where
  "float_literal s =
     (let (neg, body) = signed s;
          (mant, ex) = cut is_e body;
          (ip, fr) = cut is_dot mant;
          fp = (case fr of None \<Rightarrow> [] | Some f \<Rightarrow> f);
          shape = ((ip = [] \<or> digitpart ip) \<and> (fp = [] \<or> digitpart fp) \<and>
                   (ip \<noteq> [] \<or> fp \<noteq> []))
      in if \<not> shape then None
         else
           (case ex of
              None \<Rightarrow> Some (decimal_value neg (filter isdigit ip) (filter isdigit fp) 0)
            | Some x \<Rightarrow>
                (case exponent digitpart x of
                   None \<Rightarrow> None
                 | Some e \<Rightarrow>
                     Some (decimal_value neg (filter isdigit ip) (filter isdigit fp) e))))"

definition py_float :: "string \<Rightarrow> py_error + pyfloat" where
  "py_float s =
     (let t = strip s; (neg, body) = signed t; w = map lower body in
      if w = ''inf'' \<or> w = ''infinity'' then Inr (if neg then NegInf else PosInf)
      else if w = ''nan'' then Inr NaN
      else
        (case float_literal t of
           None \<Rightarrow> Inl ValueError
         | Some x \<Rightarrow> Inr (Fin x)))"

section \<open>The JSON decoder\<close>

text \<open>
  \<^verbatim>\<open>json.loads\<close> of the standard library with its default settings, on a string: objects
  become dictionaries (a repeated key keeps its first position and its last value),
  arrays lists, numbers without fraction and exponent integers and the others floats;
  the literals \<^verbatim>\<open>NaN\<close>, \<^verbatim>\<open>Infinity\<close> and \<^verbatim>\<open>-Infinity\<close> are accepted; a control
  character inside a string, an unknown escape, and anything after the value raise
  \<^verbatim>\<open>JSONDecodeError\<close>. The decoder is written as a scanner that cuts the text into
  tokens, followed by a stack machine over the tokens.
\<close>

subsection \<open>Number tokens\<close>

definition all_digits :: "string \<Rightarrow> bool" where
  "all_digits ds = (ds \<noteq> [] \<and> list_all isdigit ds)"

definition json_number :: "string \<Rightarrow> pyval option" where
  "json_number w =
     (let (neg, body) = (case w of [] \<Rightarrow> (False, [])
                         | c # cs \<Rightarrow> if c = CHR ''-'' then (True, cs) else (False, c # cs));
          (mant, ex) = cut is_e body;
          (ip, fr) = cut is_dot mant
      in if \<not> (all_digits ip \<and> (ip = ''0'' \<or> hd ip \<noteq> CHR ''0'')) then None
         else
           (case (fr, ex) of
              (None, None) \<Rightarrow>
                Some (PInt (if neg then - int (nat_of_digits ip) else int (nat_of_digits ip)))
            | (_, _) \<Rightarrow>
                (let fp = (case fr of None \<Rightarrow> [] | Some f \<Rightarrow> f);
                     e = (case ex of None \<Rightarrow> Some 0 | Some x \<Rightarrow> exponent all_digits x)
                 in if fr \<noteq> None \<and> \<not> all_digits fp then None
                    else
                      (case e of
                         None \<Rightarrow> None
                       | Some k \<Rightarrow> Some (PFloat (Fin (decimal_value neg ip fp k)))))))"

definition word_value :: "string \<Rightarrow> pyval option" where
  "word_value w =
     (if w = ''null'' then Some PNone
      else if w = ''true'' then Some (PBool True)
      else if w = ''false'' then Some (PBool False)
      else if w = ''NaN'' then Some (PFloat NaN)
      else if w = ''Infinity'' then Some (PFloat PosInf)
      else if w = ''-Infinity'' then Some (PFloat NegInf)
      else json_number w)"

subsection \<open>String tokens\<close>

text \<open>The content of a string literal is a sequence of characters copied from the text
  and of code points written as \<^verbatim>\<open>\uXXXX\<close>. Two adjacent escapes that form a surrogate
  pair stand for one code point. The code points are stored in UTF-8.\<close>

datatype piece = Raw char | Esc nat

definition utf8 :: "nat \<Rightarrow> string" where
  "utf8 n =
     (if n < 128 then [char_of n]
      else if n < 2048 then [char_of (192 + n div 64), char_of (128 + n mod 64)]
      else if n < 65536 then
        [char_of (224 + n div 4096), char_of (128 + n div 64 mod 64), char_of (128 + n mod 64)]
      else
        [char_of (240 + n div 262144), char_of (128 + n div 4096 mod 64),
         char_of (128 + n div 64 mod 64), char_of (128 + n mod 64)])"

fun join_pieces :: "piece list \<Rightarrow> string" where
  "join_pieces [] = []"
| "join_pieces (Raw c # ps) = c # join_pieces ps"
| "join_pieces (Esc hi # Esc lo # ps) =
     (if 55296 \<le> hi \<and> hi \<le> 56319 \<and> 56320 \<le> lo \<and> lo \<le> 57343
      then utf8 (65536 + ((hi - 55296) * 1024 + (lo - 56320))) @ join_pieces ps
      else utf8 hi @ join_pieces (Esc lo # ps))"
| "join_pieces (Esc n # ps) = utf8 n @ join_pieces ps"

definition escape_char :: "char \<Rightarrow> char option" where
  "escape_char c =
     (if c = CHR 0x22 \<or> c = CHR 0x5C \<or> c = CHR ''/'' then Some c
      else if c = CHR ''b'' then Some (CHR 0x08)
      else if c = CHR ''f'' then Some (CHR 0x0C)
      else if c = CHR ''n'' then Some (CHR 0x0A)
      else if c = CHR ''r'' then Some (CHR 0x0D)
      else if c = CHR ''t'' then Some (CHR 0x09)
      else None)"

definition hex_val :: "char \<Rightarrow> nat option" where
  "hex_val c =
     (let n = (of_char c :: nat) in
      if 48 \<le> n \<and> n \<le> 57 then Some (n - 48)
      else if 65 \<le> n \<and> n \<le> 70 then Some (n - 55)
      else if 97 \<le> n \<and> n \<le> 102 then Some (n - 87)
      else None)"

subsection \<open>The scanner\<close>

datatype token = TLBrace | TRBrace | TLBrack | TRBrack | TComma | TColon | TValue pyval

datatype scan_state =
    Idle
  | InWord string
  | InStr "piece list"
  | InEsc "piece list"
  | InHex "piece list" nat nat

definition json_ws :: "char \<Rightarrow> bool" where
  "json_ws c = (c = CHR '' '' \<or> c = CHR 0x09 \<or> c = CHR 0x0A \<or> c = CHR 0x0D)"

definition punct :: "char \<Rightarrow> token option" where
  "punct c =
     (if c = CHR ''{'' then Some TLBrace
      else if c = CHR ''}'' then Some TRBrace
      else if c = CHR ''['' then Some TLBrack
      else if c = CHR '']'' then Some TRBrack
      else if c = CHR '','' then Some TComma
      else if c = CHR '':'' then Some TColon
      else None)"

definition emit :: "token \<Rightarrow> py_error + token list \<Rightarrow> py_error + token list" where
  "emit t r = (case r of Inl e \<Rightarrow> Inl e | Inr ts \<Rightarrow> Inr (t # ts))"

definition emit_word :: "string \<Rightarrow> py_error + token list \<Rightarrow> py_error + token list" where
  "emit_word w r =
     (case word_value w of None \<Rightarrow> Inl JSONDecodeError | Some v \<Rightarrow> emit (TValue v) r)"

fun scan :: "scan_state \<Rightarrow> string \<Rightarrow> py_error + token list" where
  "scan Idle [] = Inr []"
| "scan (InWord w) [] = emit_word w (Inr [])"
| "scan _ [] = Inl JSONDecodeError"
| "scan Idle (c # cs) =
     (if json_ws c then scan Idle cs
      else if c = CHR 0x22 then scan (InStr []) cs
      else
        (case punct c of
           Some t \<Rightarrow> emit t (scan Idle cs)
         | None \<Rightarrow> scan (InWord [c]) cs))"
| "scan (InWord w) (c # cs) =
     (if json_ws c then emit_word w (scan Idle cs)
      else if c = CHR 0x22 then emit_word w (scan (InStr []) cs)
      else
        (case punct c of
           Some t \<Rightarrow> emit_word w (emit t (scan Idle cs))
         | None \<Rightarrow> scan (InWord (w @ [c])) cs))"
| "scan (InStr ps) (c # cs) =
     (if c = CHR 0x22 then emit (TValue (PStr (join_pieces ps))) (scan Idle cs)
      else if c = CHR 0x5C then scan (InEsc ps) cs
      else if (of_char c :: nat) < 32 then Inl JSONDecodeError
      else scan (InStr (ps @ [Raw c])) cs)"
| "scan (InEsc ps) (c # cs) =
     (if c = CHR ''u'' then scan (InHex ps 0 0) cs
      else
        (case escape_char c of
           Some d \<Rightarrow> scan (InStr (ps @ [Raw d])) cs
         | None \<Rightarrow> Inl JSONDecodeError))"
| "scan (InHex ps k n) (c # cs) =
     (case hex_val c of
        None \<Rightarrow> Inl JSONDecodeError
      | Some h \<Rightarrow>
          if k = 3 then scan (InStr (ps @ [Esc (16 * n + h)])) cs
          else scan (InHex ps (Suc k) (16 * n + h)) cs)"

subsection \<open>The stack machine\<close>

text \<open>A frame is an array or an object under construction; \<open>FKey\<close> is an object whose
  next key has been read. \<open>expect\<close> says which tokens may come next.\<close>

datatype frame = FArr "pyval list" | FObj pydict | FKey pydict string

datatype expect =
    EValue
  | EValueOrClose
  | EKeyOrClose
  | EKey
  | EColon
  | ECommaOrClose
  | EEnd pyval

definition mk_dict :: "(string \<times> pyval) list \<Rightarrow> pydict" where
  "mk_dict ps = foldl (\<lambda>d (k, v). AList.update k v d) [] ps"

fun complete :: "pyval \<Rightarrow> frame list \<Rightarrow> (expect \<times> frame list) option" where
  "complete v [] = Some (EEnd v, [])"
| "complete v (FArr xs # st) = Some (ECommaOrClose, FArr (xs @ [v]) # st)"
| "complete v (FKey ps k # st) = Some (ECommaOrClose, FObj (ps @ [(k, v)]) # st)"
| "complete v (FObj ps # st) = None"

definition opens :: "expect \<Rightarrow> bool" where
  "opens ex = (ex = EValue \<or> ex = EValueOrClose)"

definition step :: "token \<Rightarrow> expect \<times> frame list \<Rightarrow> (expect \<times> frame list) option" where
  "step t s =
     (let (ex, st) = s in
      case t of
        TValue v \<Rightarrow>
          if opens ex then complete v st
          else if ex = EKeyOrClose \<or> ex = EKey then
            (case (v, st) of
               (PStr k, FObj ps # st') \<Rightarrow> Some (EColon, FKey ps k # st')
             | _ \<Rightarrow> None)
          else None
      | TLBrack \<Rightarrow> if opens ex then Some (EValueOrClose, FArr [] # st) else None
      | TLBrace \<Rightarrow> if opens ex then Some (EKeyOrClose, FObj [] # st) else None
      | TRBrack \<Rightarrow>
          if ex = EValueOrClose \<or> ex = ECommaOrClose then
            (case st of FArr xs # st' \<Rightarrow> complete (PList xs) st' | _ \<Rightarrow> None)
          else None
      | TRBrace \<Rightarrow>
          if ex = EKeyOrClose \<or> ex = ECommaOrClose then
            (case st of FObj ps # st' \<Rightarrow> complete (PDict (mk_dict ps)) st' | _ \<Rightarrow> None)
          else None
      | TComma \<Rightarrow>
          if ex = ECommaOrClose then
            (case st of
               FArr xs # st' \<Rightarrow> Some (EValue, st)
             | FObj ps # st' \<Rightarrow> Some (EKey, st)
             | _ \<Rightarrow> None)
          else None
      | TColon \<Rightarrow> if ex = EColon then Some (EValue, st) else None)"

definition finish :: "expect \<times> frame list \<Rightarrow> py_error + pyval" where
  "finish s =
     (case s of
        (EEnd v, []) \<Rightarrow> Inr v
      | _ \<Rightarrow> Inl JSONDecodeError)"

fun run :: "token list \<Rightarrow> expect \<times> frame list \<Rightarrow> py_error + pyval" where
  "run [] s = finish s"
| "run (t # ts) s =
     (case step t s of None \<Rightarrow> Inl JSONDecodeError | Some s' \<Rightarrow> run ts s')"

definition json_loads :: "string \<Rightarrow> py_error + pyval" where
  "json_loads s =
     (case scan Idle s of Inl e \<Rightarrow> Inl e | Inr ts \<Rightarrow> run ts (EValue, []))"

section \<open>The page extractor\<close>

text \<open>
  The inference service is a collaborator: \<open>client img_b64 media_type\<close> is what
  \<^verbatim>\<open>client.messages.create\<close> does for the request built from one image and the fixed
  prompt. It raises, or returns the texts of the content blocks of the response.
\<close>

type_synonym client = "string \<Rightarrow> string \<Rightarrow> py_error + string list"

text \<open>Lines 152 to 155 of \<^verbatim>\<open>parse_check\<close>: a response that starts with a code fence loses
  its first line and everything from the last fence on.\<close>

definition strip_fence :: "string \<Rightarrow> py_error + string" where
  "strip_fence text =
     (if startswith text ''```'' then
        (case item (split1 (CHR 0x0A) text) 1 of
           Inl e \<Rightarrow> Inl e
         | Inr t1 \<Rightarrow>
             (case item (rsplit1 ''```'' t1) 0 of
                Inl e \<Rightarrow> Inl e
              | Inr t2 \<Rightarrow> Inr (strip t2)))
      else Inr text)"

text \<open>Lines 157 to 159: the text handed to the decoder is the match of the pattern, or
  the whole text when there is no match.\<close>

definition find_json :: "string \<Rightarrow> string" where
  "find_json text = (case re_search text of Some m \<Rightarrow> m | None \<Rightarrow> text)"

text \<open>Lines 161 to 164. \<^verbatim>\<open>data.get\<close> exists on a dictionary only; an \<^verbatim>\<open>Amount\<close> that
  is a string is replaced by the float of its text without commas and dollar signs.\<close>

definition ensure_amount :: "pyval \<Rightarrow> py_error + pydict" where
  "ensure_amount data =
     (case data of
        PDict d \<Rightarrow>
          (case map_of d ''Amount'' of
             Some (PStr a) \<Rightarrow>
               (case py_float (replace_del (CHR ''$'') (replace_del (CHR '','') a)) of
                  Inl e \<Rightarrow> Inl e
                | Inr x \<Rightarrow> Inr (AList.update ''Amount'' (PFloat x) d))
           | _ \<Rightarrow> Inr d)
      | _ \<Rightarrow> Inl AttributeError)"

text \<open>Lines 150 to 164: what \<^verbatim>\<open>parse_check\<close> does with the text of the first block.\<close>

definition parse_response :: "string \<Rightarrow> py_error + pydict" where
  "parse_response block =
     (case strip_fence (strip block) of
        Inl e \<Rightarrow> Inl e
      | Inr text \<Rightarrow>
          (case json_loads (find_json text) of
             Inl e \<Rightarrow> Inl e
           | Inr data \<Rightarrow> ensure_amount data))"

definition parse_check :: "client \<Rightarrow> string \<Rightarrow> string \<Rightarrow> py_error + pydict" where
  "parse_check client img_b64 media_type =
     (case client img_b64 media_type of
        Inl e \<Rightarrow> Inl e
      | Inr content \<Rightarrow>
          (case item content 0 of
             Inl e \<Rightarrow> Inl e
           | Inr block \<Rightarrow> parse_response block))"

section \<open>Formatting and summing amounts\<close>

text \<open>The decimal digits of a natural number.\<close>

fun digits_of :: "nat \<Rightarrow> string" where
  "digits_of n =
     (if n < 10 then [char_of (48 + n)]
      else digits_of (n div 10) @ [char_of (48 + n mod 10)])"

declare digits_of.simps [simp del]

text \<open>Rounding a non-negative number to the nearest integer, a tie to the even one, as
  the conversion of a float to a fixed number of decimals does.\<close>

definition round_half_even :: "rat \<Rightarrow> nat" where
  "round_half_even y =
     (let n = nat \<lfloor>y\<rfloor>; r = y - of_nat n in
      if r < 1 / 2 then n
      else if 1 / 2 < r then n + 1
      else if even n then n else n + 1)"

text \<open>The number of cents shown for an amount, and its text with two decimals. The
  format specification \<^verbatim>\<open>,.2f\<close> also groups the integer digits in threes.\<close>

definition cents :: "rat \<Rightarrow> nat" where
  "cents x = round_half_even (\<bar>x\<bar> * 100)"

fun commas_rev :: "string \<Rightarrow> string" where
  "commas_rev (a # b # c # d # ds) = a # b # c # CHR '','' # commas_rev (d # ds)"
| "commas_rev ds = ds"

definition group3 :: "string \<Rightarrow> string" where
  "group3 ds = rev (commas_rev (rev ds))"

definition fixed2_with :: "(string \<Rightarrow> string) \<Rightarrow> pyfloat \<Rightarrow> string" where
  "fixed2_with grouping f =
     (case f of
        Fin x \<Rightarrow>
          (if x < 0 then ''-'' else []) @ grouping (digits_of (cents x div 100)) @ ''.'' @
          [char_of (48 + cents x mod 100 div 10), char_of (48 + cents x mod 10)]
      | PosInf \<Rightarrow> ''inf''
      | NegInf \<Rightarrow> ''-inf''
      | NaN \<Rightarrow> ''nan'')"

definition fixed2 :: "pyfloat \<Rightarrow> string" where
  "fixed2 f = fixed2_with (\<lambda>ds. ds) f"

text \<open>The numbers of Python: \<^verbatim>\<open>bool\<close> is a subtype of \<^verbatim>\<open>int\<close>.\<close>

datatype number = I int | F pyfloat

definition number_of :: "pyval \<Rightarrow> number option" where
  "number_of v =
     (case v of
        PBool b \<Rightarrow> Some (I (if b then 1 else 0))
      | PInt i \<Rightarrow> Some (I i)
      | PFloat f \<Rightarrow> Some (F f)
      | _ \<Rightarrow> None)"

definition to_float :: "number \<Rightarrow> pyfloat" where
  "to_float n = (case n of I i \<Rightarrow> Fin (of_int i) | F f \<Rightarrow> f)"

text \<open>The format specifications \<^verbatim>\<open>.2f\<close> and \<^verbatim>\<open>,.2f\<close> applied to a value: numbers are
  formatted, a string raises \<^verbatim>\<open>ValueError\<close> and the other values \<^verbatim>\<open>TypeError\<close>.\<close>

definition format_with :: "(pyfloat \<Rightarrow> string) \<Rightarrow> pyval \<Rightarrow> py_error + string" where
  "format_with fmt v =
     (case number_of v of
        Some n \<Rightarrow> Inr (fmt (to_float n))
      | None \<Rightarrow> (case v of PStr _ \<Rightarrow> Inl ValueError | _ \<Rightarrow> Inl TypeError))"

definition format_2f :: "pyval \<Rightarrow> py_error + string" where
  "format_2f v = format_with fixed2 v"

definition format_comma_2f :: "pyval \<Rightarrow> py_error + string" where
  "format_comma_2f v = format_with (fixed2_with group3) v"

definition float_add :: "pyfloat \<Rightarrow> pyfloat \<Rightarrow> pyfloat" where
  "float_add a b =
     (case (a, b) of
        (Fin x, Fin y) \<Rightarrow> Fin (x + y)
      | (NaN, _) \<Rightarrow> NaN
      | (_, NaN) \<Rightarrow> NaN
      | (PosInf, NegInf) \<Rightarrow> NaN
      | (NegInf, PosInf) \<Rightarrow> NaN
      | (PosInf, _) \<Rightarrow> PosInf
      | (_, PosInf) \<Rightarrow> PosInf
      | (NegInf, _) \<Rightarrow> NegInf
      | (_, NegInf) \<Rightarrow> NegInf)"

text \<open>The operator \<^verbatim>\<open>+\<close> as \<^verbatim>\<open>sum\<close> uses it, with a number on the left.\<close>

definition py_add :: "pyval \<Rightarrow> pyval \<Rightarrow> py_error + pyval" where
  "py_add a b =
     (case (number_of a, number_of b) of
        (Some (I i), Some (I j)) \<Rightarrow> Inr (PInt (i + j))
      | (Some m, Some n) \<Rightarrow> Inr (PFloat (float_add (to_float m) (to_float n)))
      | _ \<Rightarrow> Inl TypeError)"

fun sum_from :: "pyval \<Rightarrow> pyval list \<Rightarrow> py_error + pyval" where
  "sum_from acc [] = Inr acc"
| "sum_from acc (v # vs) =
     (case py_add acc v of Inl e \<Rightarrow> Inl e | Inr acc' \<Rightarrow> sum_from acc' vs)"

definition py_sum :: "pyval list \<Rightarrow> py_error + pyval" where
  "py_sum vs = sum_from (PInt 0) vs"

text \<open>\<^verbatim>\<open>d.get(key, default)\<close>.\<close>

definition get :: "pydict \<Rightarrow> string \<Rightarrow> pyval \<Rightarrow> pyval" where
  "get d k dflt = (case map_of d k of Some v \<Rightarrow> v | None \<Rightarrow> dflt)"

text \<open>\<^verbatim>\<open>sum(c.get("Amount", 0) for c in checks)\<close>, at lines 237 and 268.\<close>

definition total_amount :: "pydict list \<Rightarrow> py_error + pyval" where
  "total_amount checks = py_sum (map (\<lambda>c. get c ''Amount'' (PInt 0)) checks)"

section \<open>The report writers\<close>

subsection \<open>The CSV report\<close>

text \<open>
  \<^verbatim>\<open>generate_csv\<close> hands rows of cells to a \<^verbatim>\<open>csv.writer\<close> and returns the text the
  writer produced. The model returns the rows in the order in which they were written;
  the quoting and the line ends of the writer are not modelled. An amount that cannot
  be formatted raises, and so does one that cannot be summed.
\<close>

definition csv_header :: "pyval list" where
  "csv_header =
     [PStr ''#'', PStr ''Payer'', PStr ''Date'', PStr ''Amount'', PStr ''Bank'',
      PStr ''Check Number'', PStr ''Account #'', PStr ''Routing #'', PStr ''Claim #'']"

definition csv_row :: "nat \<Rightarrow> pydict \<Rightarrow> string \<Rightarrow> pyval list" where
  "csv_row i ck amount =
     [PInt (int i), get ck ''Payer'' (PStr []), get ck ''Date'' (PStr []),
      PStr amount, get ck ''Bank'' (PStr []),
      get ck ''Check_Number'' (PStr []), get ck ''Account'' (PStr []),
      get ck ''Routing'' (PStr []), get ck ''Claim'' (PStr [])]"

fun csv_rows :: "nat \<Rightarrow> pydict list \<Rightarrow> py_error + pyval list list" where
  "csv_rows i [] = Inr []"
| "csv_rows i (ck # cks) =
     (case format_2f (get ck ''Amount'' (PInt 0)) of
        Inl e \<Rightarrow> Inl e
      | Inr amount \<Rightarrow>
          (case csv_rows (Suc i) cks of
             Inl e \<Rightarrow> Inl e
           | Inr rows \<Rightarrow> Inr (csv_row i ck amount # rows)))"

definition csv_total_row :: "string \<Rightarrow> pyval list" where
  "csv_total_row tot =
     [PStr [], PStr [], PStr ''TOTAL'', PStr tot, PStr [], PStr [], PStr [], PStr [],
      PStr []]"

definition generate_csv :: "pydict list \<Rightarrow> py_error + pyval list list" where
  "generate_csv checks =
     (case csv_rows 1 checks of
        Inl e \<Rightarrow> Inl e
      | Inr rows \<Rightarrow>
          (case total_amount checks of
             Inl e \<Rightarrow> Inl e
           | Inr tot \<Rightarrow>
               (case format_2f tot of
                  Inl e \<Rightarrow> Inl e
                | Inr t \<Rightarrow> Inr (csv_header # rows @ [csv_total_row t]))))"

subsection \<open>The spreadsheet report\<close>

text \<open>
  \<^verbatim>\<open>generate_xlsx\<close> fills a worksheet of \<^verbatim>\<open>openpyxl\<close> and returns the saved workbook.
  The model returns the worksheet: the values of its cells by row and column (both
  counted from 1), the number formats, the filter range and the frozen pane. Fonts,
  fills, borders, alignments and column widths are not modelled, nor are the checks
  that \<^verbatim>\<open>openpyxl\<close> makes on the value of a cell.
\<close>

record worksheet =
  title :: string
  cells :: "nat \<times> nat \<Rightarrow> pyval option"
  number_format :: "nat \<times> nat \<Rightarrow> string option"
  auto_filter :: string
  freeze_panes :: string

definition money_fmt :: string where
  "money_fmt = ''$#,##0.00''"

definition xlsx_headers :: "string list" where
  "xlsx_headers =
     [''#'', ''Payer'', ''Date'', ''Amount'', ''Bank'', ''Check Number'', ''Account #'',
      ''Routing #'', ''Claim #'']"

text \<open>\<^verbatim>\<open>for col, v in enumerate(vals, 1): ws.cell(row=r, column=col, value=v)\<close>.\<close>

fun write_cells ::
  "nat \<Rightarrow> nat \<Rightarrow> pyval list \<Rightarrow> (nat \<times> nat \<Rightarrow> pyval option) \<Rightarrow> (nat \<times> nat \<Rightarrow> pyval option)" where
  "write_cells r col [] m = m"
| "write_cells r col (v # vs) m = write_cells r (Suc col) vs (m((r, col) \<mapsto> v))"

definition xlsx_vals :: "nat \<Rightarrow> pydict \<Rightarrow> pyval list" where
  "xlsx_vals i ck =
     [PInt (int i), get ck ''Payer'' (PStr []), get ck ''Date'' (PStr []),
      get ck ''Amount'' (PInt 0), get ck ''Bank'' (PStr []),
      get ck ''Check_Number'' (PStr []), get ck ''Account'' (PStr []),
      get ck ''Routing'' (PStr []), get ck ''Claim'' (PStr [])]"

fun xlsx_rows :: "nat \<Rightarrow> pydict list \<Rightarrow> worksheet \<Rightarrow> worksheet" where
  "xlsx_rows i [] ws = ws"
| "xlsx_rows i (ck # cks) ws =
     xlsx_rows (Suc i) cks
       (ws\<lparr>cells := write_cells (i + 1) 1 (xlsx_vals i ck) (cells ws),
           number_format := (number_format ws)((i + 1, 4) \<mapsto> money_fmt)\<rparr>)"

definition generate_xlsx :: "pydict list \<Rightarrow> worksheet" where
  "generate_xlsx checks =
     (let ws0 = \<lparr>title = ''Check Register'',
                 cells = write_cells 1 1 (map PStr xlsx_headers) Map.empty,
                 number_format = Map.empty, auto_filter = [], freeze_panes = []\<rparr>;
          ws1 = xlsx_rows 1 checks ws0;
          tr = length checks + 2;
          ws2 = ws1\<lparr>cells := (cells ws1)
                        ((tr, 3) \<mapsto> PStr ''TOTAL'',
                         (tr, 4) \<mapsto> PStr (''=SUM(D2:D'' @ digits_of (tr - 1) @ '')'')),
                    number_format := (number_format ws1)((tr, 4) \<mapsto> money_fmt)\<rparr>
      in ws2\<lparr>auto_filter := ''A1:I'' @ digits_of (tr - 1), freeze_panes := ''A2''\<rparr>)"

section \<open>Decomposing the uploads into page images\<close>

text \<open>
  The rasterizer (\<^verbatim>\<open>pdf2image\<close>), the image library (\<^verbatim>\<open>PIL\<close>) and the base64 codec are
  collaborators, given as a record of functions over a type \<open>'img\<close> of images. Reading a
  PDF, opening an image and saving one may raise; the enhancements are total.
\<close>

record 'img imaging =
  convert_from_bytes :: "string \<Rightarrow> py_error + 'img list"
  image_open :: "string \<Rightarrow> py_error + 'img"
  image_mode :: "'img \<Rightarrow> string"
  convert_mode :: "string \<Rightarrow> 'img \<Rightarrow> 'img"
  contrast :: "rat \<Rightarrow> 'img \<Rightarrow> 'img"
  sharpness :: "rat \<Rightarrow> 'img \<Rightarrow> 'img"
  save_png :: "'img \<Rightarrow> py_error + string"
  b64encode :: "string \<Rightarrow> string"

text \<open>An uploaded file: what \<^verbatim>\<open>f.read()\<close> returns and \<^verbatim>\<open>f.type\<close>.\<close>

record upload =
  content :: string
  ftype :: string

definition enhance_image :: "'img imaging \<Rightarrow> 'img \<Rightarrow> 'img" where
  "enhance_image env img =
     (let img1 = (if image_mode env img \<noteq> ''RGB'' then convert_mode env ''RGB'' img else img);
          img2 = contrast env (3 / 2) img1
      in sharpness env 2 img2)"

definition image_to_base64 :: "'img imaging \<Rightarrow> 'img \<Rightarrow> py_error + string" where
  "image_to_base64 env img =
     (case save_png env (enhance_image env img) of
        Inl e \<Rightarrow> Inl e
      | Inr buf \<Rightarrow> Inr (b64encode env buf))"

text \<open>The \<^verbatim>\<open>try\<close> of \<^verbatim>\<open>bytes_to_base64\<close> covers the opening and the conversion: any
  exception falls back to the raw bytes with the declared type.\<close>

definition bytes_to_base64 :: "'img imaging \<Rightarrow> string \<Rightarrow> string \<Rightarrow> string \<times> string" where
  "bytes_to_base64 env data mime =
     (case image_open env data of
        Inl e \<Rightarrow> (b64encode env data, mime)
      | Inr img \<Rightarrow>
          (case image_to_base64 env img of
             Inl e \<Rightarrow> (b64encode env data, mime)
           | Inr b64 \<Rightarrow> (b64, ''image/png'')))"

text \<open>The inner loop over the pages of one PDF.\<close>

fun pages_to_images :: "'img imaging \<Rightarrow> 'img list \<Rightarrow> py_error + (string \<times> string) list" where
  "pages_to_images env [] = Inr []"
| "pages_to_images env (page # pages) =
     (case image_to_base64 env page of
        Inl e \<Rightarrow> Inl e
      | Inr b64 \<Rightarrow>
          (case pages_to_images env pages of
             Inl e \<Rightarrow> Inl e
           | Inr images \<Rightarrow> Inr ((b64, ''image/png'') # images)))"

fun get_images_from_uploads ::
  "'img imaging \<Rightarrow> upload list \<Rightarrow> py_error + (string \<times> string) list" where
  "get_images_from_uploads env [] = Inr []"
| "get_images_from_uploads env (f # files) =
     (if ftype f = ''application/pdf'' then
        (case convert_from_bytes env (content f) of
           Inl e \<Rightarrow> Inl e
         | Inr pages \<Rightarrow>
             (case pages_to_images env pages of
                Inl e \<Rightarrow> Inl e
              | Inr images \<Rightarrow>
                  (case get_images_from_uploads env files of
                     Inl e \<Rightarrow> Inl e
                   | Inr rest \<Rightarrow> Inr (images @ rest))))
      else
        (case get_images_from_uploads env files of
           Inl e \<Rightarrow> Inl e
         | Inr rest \<Rightarrow>
             Inr (bytes_to_base64 env (content f)
                    (if ftype f \<noteq> [] then ftype f else ''image/png'') # rest)))"

section \<open>The batch\<close>

text \<open>
  The module-level block that runs when the button is pressed. The state of the parse
  loop is the list \<^verbatim>\<open>checks\<close> and what \<^verbatim>\<open>st.error\<close> has displayed: the message
  \<^verbatim>\<open>Error parsing check {idx + 1}: {e}\<close> is kept as the pair of the number and the
  exception. The progress bar is not modelled.
\<close>

record batch_state =
  checks :: "pydict list"
  errors :: "(nat \<times> py_error) list"

fun parse_loop :: "client \<Rightarrow> nat \<Rightarrow> (string \<times> string) list \<Rightarrow> batch_state \<Rightarrow> batch_state" where
  "parse_loop client idx [] s = s"
| "parse_loop client idx ((img_b64, media_type) # images) s =
     parse_loop client (Suc idx) images
       (case parse_check client img_b64 media_type of
          Inr check_data \<Rightarrow> s\<lparr>checks := checks s @ [check_data]\<rparr>
        | Inl e \<Rightarrow> s\<lparr>errors := errors s @ [(idx + 1, e)]\<rparr>)"

text \<open>Lines 265 to 303: nothing is shown when no check was parsed; otherwise the total,
  the table and the two downloads are computed from \<^verbatim>\<open>checks\<close>.\<close>

record report =
  total_shown :: pyval
  metric :: string
  display_data :: "pyval list list"
  xlsx :: worksheet
  csv :: "pyval list list"

fun display_rows :: "nat \<Rightarrow> pydict list \<Rightarrow> py_error + pyval list list" where
  "display_rows i [] = Inr []"
| "display_rows i (ck # cks) =
     (case format_comma_2f (get ck ''Amount'' (PInt 0)) of
        Inl e \<Rightarrow> Inl e
      | Inr amount \<Rightarrow>
          (case display_rows (Suc i) cks of
             Inl e \<Rightarrow> Inl e
           | Inr rows \<Rightarrow>
               Inr ([PInt (int i), get ck ''Payer'' (PStr []), get ck ''Date'' (PStr []),
                     PStr (''$'' @ amount), get ck ''Bank'' (PStr []),
                     get ck ''Check_Number'' (PStr [])] # rows)))"

definition results :: "pydict list \<Rightarrow> py_error + report option" where
  "results cks =
     (if cks = [] then Inr None
      else
        (case total_amount cks of
           Inl e \<Rightarrow> Inl e
         | Inr tot \<Rightarrow>
             (case format_comma_2f tot of
                Inl e \<Rightarrow> Inl e
              | Inr m \<Rightarrow>
                  (case display_rows 1 cks of
                     Inl e \<Rightarrow> Inl e
                   | Inr tbl \<Rightarrow>
                       (case generate_csv cks of
                          Inl e \<Rightarrow> Inl e
                        | Inr csv_data \<Rightarrow>
                            Inr (Some \<lparr>total_shown = tot, metric = ''$'' @ m,
                                       display_data = tbl, xlsx = generate_xlsx cks,
                                       csv = csv_data\<rparr>))))))"

definition process ::
  "'img imaging \<Rightarrow> client \<Rightarrow> upload list \<Rightarrow> py_error + batch_state \<times> report option" where
  "process env client uploaded_files =
     (case get_images_from_uploads env uploaded_files of
        Inl e \<Rightarrow> Inl e
      | Inr images \<Rightarrow>
          (let s = parse_loop client 0 images \<lparr>checks = [], errors = []\<rparr> in
           case results (checks s) of
             Inl e \<Rightarrow> Inl e
           | Inr rep \<Rightarrow> Inr (s, rep)))"

section \<open>Notions used in the statements\<close>

text \<open>What a batch leaves behind: the records of the pages whose extraction returned, in
  page order, and for each page whose extraction raised its number and the exception.\<close>

definition parsed :: "client \<Rightarrow> (string \<times> string) list \<Rightarrow> pydict list" where
  "parsed client images =
     concat (map (\<lambda>(b, m). case parse_check client b m of Inr d \<Rightarrow> [d] | Inl e \<Rightarrow> [])
       images)"

definition failed :: "client \<Rightarrow> nat \<Rightarrow> (string \<times> string) list \<Rightarrow> (nat \<times> py_error) list" where
  "failed client idx images =
     concat (map (\<lambda>(i, (b, m)).
                    case parse_check client b m of Inr d \<Rightarrow> [] | Inl e \<Rightarrow> [(i + 1, e)])
       (enumerate idx images))"



definition num_value :: "pyval \<Rightarrow> rat" where
  "num_value v =
     (case number_of v of
        Some (I i) \<Rightarrow> of_int i
      | Some (F (Fin x)) \<Rightarrow> x
      | _ \<Rightarrow> 0)"

definition amount :: "pydict \<Rightarrow> rat" where
  "amount ck = num_value (get ck ''Amount'' (PInt 0))"


text \<open>
  Following the specification's words, "the first balanced \<^verbatim>\<open>{...}\<close> JSON object
  substring within the response text": from the first opening brace whose matching
  closing brace exists, up to that closing brace, counting nested braces.
\<close>

fun spec_balanced_from :: "nat \<Rightarrow> string \<Rightarrow> string option" where
  "spec_balanced_from depth [] = None"
| "spec_balanced_from depth (c # cs) =
     (if c = CHR ''{'' then map_option ((#) c) (spec_balanced_from (Suc depth) cs)
      else if c = CHR ''}'' then
        (if depth = 0 then Some [c]
         else map_option ((#) c) (spec_balanced_from (depth - 1) cs))
      else map_option ((#) c) (spec_balanced_from depth cs))"

fun spec_first_balanced :: "string \<Rightarrow> string option" where
  "spec_first_balanced [] = None"
| "spec_first_balanced (c # cs) =
     (if c = CHR ''{'' then
        (case spec_balanced_from 0 cs of
           Some m \<Rightarrow> Some (c # m)
         | None \<Rightarrow> spec_first_balanced cs)
      else spec_first_balanced cs)"

section \<open>Sample collaborators\<close>

text \<open>The collaborators used at the concrete inputs below: an imaging library over
  images that are their own bytes, whose rasterizer rejects the document \<^verbatim>\<open>corrupt\<close>, and
  an inference service that answers with a JSON object for every page but \<^verbatim>\<open>page2\<close>.\<close>

abbreviation sample_imaging :: "string imaging" where
  "sample_imaging \<equiv>
     \<lparr>convert_from_bytes =
        (\<lambda>raw. if raw = ''corrupt'' then Inl RasterizerError else Inr [raw]),
      image_open = (\<lambda>raw. Inr raw), image_mode = (\<lambda>img. ''RGB''),
      convert_mode = (\<lambda>mode img. img), contrast = (\<lambda>factor img. img),
      sharpness = (\<lambda>factor img. img), save_png = (\<lambda>img. Inr img),
      b64encode = (\<lambda>raw. raw)\<rparr>"

abbreviation sample_client :: client where
  \<open>sample_client \<equiv> (\<lambda>img_b64 media_type.
     Inr [if img_b64 = ''page2'' then ''unreadable''
          else ''{"Payer": "Acme", "Amount": 10}''])\<close>

section \<open>Evaluation at concrete inputs\<close>

lemmas text_defs = strip_def isspace_def startswith_def split1_def rsplit1_def item_def
  replace_del_def not_brace_def match_at_def find_json_def strip_fence_def

lemmas number_defs = isdigit_def digit_val_def nat_of_digits_def cut_def scale10_def
  decimal_value_def signed_def is_e_def is_dot_def lower_def digitpart_def exponent_def
  float_literal_def py_float_def all_digits_def json_number_def word_value_def

lemmas json_defs = utf8_def escape_char_def hex_val_def json_ws_def punct_def emit_def
  emit_word_def mk_dict_def opens_def step_def finish_def json_loads_def

lemmas extractor_defs = ensure_amount_def parse_response_def parse_check_def

lemma response_ok:
  \<open>parse_response ''{"Payer": "Acme", "Amount": 10}'' =
     Inr [(''Payer'', PStr ''Acme''), (''Amount'', PInt 10)]\<close>
  by (simp add: text_defs number_defs json_defs extractor_defs)

lemma response_bad: \<open>parse_response ''unreadable'' = Inl JSONDecodeError\<close>
  by (simp add: text_defs number_defs json_defs extractor_defs)

text \<open>A response inside a code fence, and a fence with no line break after it, where
  \<^verbatim>\<open>text.split("\n", 1)[1]\<close> raises.\<close>

lemma response_fenced:
  \<open>parse_response
      (''```json'' @ [CHR 0x0A] @ ''{"Payer": "Acme", "Amount": 10}'' @ [CHR 0x0A] @ ''```'') =
     Inr [(''Payer'', PStr ''Acme''), (''Amount'', PInt 10)]\<close>
  by (simp add: text_defs number_defs json_defs extractor_defs)

lemma response_fence_without_newline: \<open>parse_response ''```{}```'' = Inl IndexError\<close>
  by (simp add: text_defs extractor_defs)

section \<open>The parse loop\<close>

lemma parse_loop_checks:
  "checks (parse_loop client idx images s) = checks s @ parsed client images"
  by (induction images arbitrary: idx s) (auto simp: parsed_def split: sum.splits)

lemma parse_loop_errors:
  "errors (parse_loop client idx images s) = errors s @ failed client idx images"
  by (induction images arbitrary: idx s) (auto simp: failed_def split: sum.splits)

lemma parsed_append: "parsed client (ps @ qs) = parsed client ps @ parsed client qs"
  by (simp add: parsed_def)

lemma failed_append:
  "failed client idx (ps @ qs) = failed client idx ps @ failed client (idx + length ps) qs"
  by (simp add: failed_def enumerate_append_eq)

lemma parsed_failed_length:
  "length (parsed client images) + length (failed client idx images) = length images"
  by (induction images arbitrary: idx) (auto simp: parsed_def failed_def split: sum.splits)

text \<open>
  Claim C1, as the code has it. The loop keeps no entry for a page whose extraction
  raised: \<^verbatim>\<open>checks\<close> holds the records of the pages that succeeded, in page order, and
  each failure is displayed once with the 1-based number of its page. Records and
  messages together are as many as the pages.
\<close>

theorem parse_loop_outcome:
  "checks (parse_loop client 0 images \<lparr>checks = [], errors = []\<rparr>) = parsed client images \<and>
   errors (parse_loop client 0 images \<lparr>checks = [], errors = []\<rparr>) = failed client 0 images \<and>
   length (parsed client images) + length (failed client 0 images) = length images"
  by (simp add: parse_loop_checks parse_loop_errors parsed_failed_length)

text \<open>
  Claim C1 as stated fails: in a batch of three pages where the response for page 2 is
  not JSON, \<^verbatim>\<open>checks\<close> has two entries, not three, and the failure of page 2 is a
  displayed message carrying a \<^verbatim>\<open>JSONDecodeError\<close>.
\<close>

theorem batch_result_counterexample:
  \<open>parse_loop
      sample_client
      0 [(''page1'', ''image/png''), (''page2'', ''image/png''), (''page3'', ''image/png'')]
      \<lparr>checks = [], errors = []\<rparr> =
    \<lparr>checks = [[(''Payer'', PStr ''Acme''), (''Amount'', PInt 10)],
               [(''Payer'', PStr ''Acme''), (''Amount'', PInt 10)]],
     errors = [(2, JSONDecodeError)]\<rparr> \<and>
    length (checks (parse_loop sample_client 0
        [(''page1'', ''image/png''), (''page2'', ''image/png''), (''page3'', ''image/png'')]
        \<lparr>checks = [], errors = []\<rparr>)) \<noteq>
    length [(''page1'', ''image/png''), (''page2'', ''image/png''), (''page3'', ''image/png'')]\<close>
  by (simp add: parse_check_def item_def response_ok response_bad)

lemma service_error_is_page_error:
  "client img_b64 media_type = Inl e \<Longrightarrow> parse_check client img_b64 media_type = Inl e"
  by (simp add: parse_check_def)

text \<open>
  Claim C2. A page whose extraction raises any exception \<open>e\<close> (from the service call,
  the decoder or the conversion of the amount) adds nothing to \<^verbatim>\<open>checks\<close>, is displayed
  with its number, and does not stop the loop: the pages before and after it are
  processed as if it were absent, and the report is the one of the batch without it.
\<close>

theorem failing_page_is_skipped:
  assumes "parse_check client b m = Inl e"
  shows "checks (parse_loop client 0 (ps @ (b, m) # qs) \<lparr>checks = [], errors = []\<rparr>) =
           parsed client ps @ parsed client qs \<and>
         errors (parse_loop client 0 (ps @ (b, m) # qs) \<lparr>checks = [], errors = []\<rparr>) =
           failed client 0 ps @ (length ps + 1, e) # failed client (length ps + 1) qs \<and>
         results (checks (parse_loop client 0 (ps @ (b, m) # qs) \<lparr>checks = [], errors = []\<rparr>)) =
           results (checks (parse_loop client 0 (ps @ qs) \<lparr>checks = [], errors = []\<rparr>))"
proof -
  have p: "parsed client ((b, m) # qs) = parsed client qs"
    using assms by (simp add: parsed_def)
  have f: "failed client i ((b, m) # qs) = (i + 1, e) # failed client (Suc i) qs" for i
    using assms by (simp add: failed_def)
  show ?thesis
    by (simp add: parse_loop_checks parse_loop_errors parsed_append failed_append p f)
qed

theorem failing_page_is_skipped_witness:
  \<open>parse_check sample_client ''page2'' ''image/png'' =
      Inl JSONDecodeError \<and>
    checks (parse_loop sample_client
      0 [(''page1'', ''image/png''), (''page2'', ''image/png''), (''page3'', ''image/png'')]
      \<lparr>checks = [], errors = []\<rparr>) =
    [[(''Payer'', PStr ''Acme''), (''Amount'', PInt 10)],
     [(''Payer'', PStr ''Acme''), (''Amount'', PInt 10)]] \<and>
    errors (parse_loop sample_client
      0 [(''page1'', ''image/png''), (''page2'', ''image/png''), (''page3'', ''image/png'')]
      \<lparr>checks = [], errors = []\<rparr>) = [(2, JSONDecodeError)]\<close>
proof -
  have h: "parse_check sample_client ''page2'' ''image/png'' = Inl JSONDecodeError"
    by (simp add: parse_check_def item_def response_bad)
  show ?thesis
    using h failing_page_is_skipped [OF h, of "[(''page1'', ''image/png'')]"
        "[(''page3'', ''image/png'')]"]
    by (simp add: parsed_def failed_def parse_check_def item_def response_ok)
qed

section \<open>Decomposition\<close>

lemma get_images_append:
  "get_images_from_uploads env (xs @ ys) =
     (case get_images_from_uploads env xs of
        Inl e \<Rightarrow> Inl e
      | Inr a \<Rightarrow>
          (case get_images_from_uploads env ys of
             Inl e \<Rightarrow> Inl e
           | Inr b \<Rightarrow> Inr (a @ b)))"
  by (induction xs) (auto split: sum.splits)

text \<open>
  Claim C3, as the code has it. When the rasterizer raises on a PDF, the exception
  leaves \<^verbatim>\<open>get_images_from_uploads\<close> whatever the documents before and after it are, and
  the whole run ends with it: no page of any document is processed. An upload that is
  not a PDF never fails to decompose: it becomes one page, enhanced when it can be
  opened as an image and its raw bytes otherwise.
\<close>

theorem corrupt_pdf_aborts_run:
  assumes "ftype f = ''application/pdf''"
    and "convert_from_bytes env (content f) = Inl e"
    and "get_images_from_uploads env before = Inr images"
  shows "get_images_from_uploads env (before @ f # after) = Inl e \<and>
         process env client (before @ f # after) = Inl e \<and>
         (\<forall>g. ftype g \<noteq> ''application/pdf'' \<longrightarrow>
            get_images_from_uploads env [g] =
              Inr [bytes_to_base64 env (content g)
                     (if ftype g \<noteq> [] then ftype g else ''image/png'')])"
  using assms by (simp add: get_images_append process_def)

theorem corrupt_pdf_aborts_run_witness:
  "ftype \<lparr>content = ''corrupt'', ftype = ''application/pdf''\<rparr> = ''application/pdf'' \<and>
   convert_from_bytes sample_imaging
     (content \<lparr>content = ''corrupt'', ftype = ''application/pdf''\<rparr>) = Inl RasterizerError \<and>
   get_images_from_uploads sample_imaging [\<lparr>content = ''page1'', ftype = ''image/png''\<rparr>] =
     Inr [(''page1'', ''image/png'')] \<and>
   get_images_from_uploads sample_imaging
     [\<lparr>content = ''page1'', ftype = ''image/png''\<rparr>,
      \<lparr>content = ''corrupt'', ftype = ''application/pdf''\<rparr>,
      \<lparr>content = ''page3'', ftype = ''image/png''\<rparr>] = Inl RasterizerError \<and>
   process sample_imaging sample_client
     [\<lparr>content = ''page1'', ftype = ''image/png''\<rparr>,
      \<lparr>content = ''corrupt'', ftype = ''application/pdf''\<rparr>,
      \<lparr>content = ''page3'', ftype = ''image/png''\<rparr>] = Inl RasterizerError"
proof -
  let ?f = "\<lparr>content = ''corrupt'', ftype = ''application/pdf''\<rparr>"
  have h1: "ftype ?f = ''application/pdf''" by simp
  have h2: "convert_from_bytes sample_imaging (content ?f) = Inl RasterizerError" by simp
  have h3: "get_images_from_uploads sample_imaging
      [\<lparr>content = ''page1'', ftype = ''image/png''\<rparr>] = Inr [(''page1'', ''image/png'')]"
    by (simp add: bytes_to_base64_def image_to_base64_def enhance_image_def)
  show ?thesis
    using h1 h2 h3
      corrupt_pdf_aborts_run [OF h1 h2 h3,
        of "[\<lparr>content = ''page3'', ftype = ''image/png''\<rparr>]" sample_client]
    by simp
qed

text \<open>
  Claim C3 as stated fails: in a batch of an image, a PDF that cannot be rasterized and
  another image, the run ends with the rasterizer's exception; the two images, which
  decompose, are never sent to the service and no result is produced.
\<close>

theorem corrupt_pdf_counterexample:
  "process sample_imaging (\<lambda>img_b64 media_type. Inr [''{}''])
     [\<lparr>content = ''scan of a check'', ftype = ''image/png''\<rparr>,
      \<lparr>content = ''corrupt'', ftype = ''application/pdf''\<rparr>,
      \<lparr>content = ''another scan'', ftype = ''image/png''\<rparr>] = Inl RasterizerError"
  by (simp add: process_def)

section \<open>The amount and the fields of a record\<close>

lemma replace_both:
  "replace_del c1 (replace_del c2 s) = filter (\<lambda>x. x \<noteq> c2 \<and> x \<noteq> c1) s"
  by (simp add: replace_del_def conj_commute)

lemma py_float_error: "py_float s = Inl e \<Longrightarrow> e = ValueError"
  by (auto simp: py_float_def Let_def split: prod.splits if_splits option.splits)

text \<open>
  Claim C4. When the decoded object has a string under \<^verbatim>\<open>Amount\<close>, \<^verbatim>\<open>parse_check\<close>
  deletes every comma and dollar sign from it and converts the rest with \<^verbatim>\<open>float\<close>:
  the record is returned with that float under \<^verbatim>\<open>Amount\<close>, or the extraction of the
  page raises \<^verbatim>\<open>ValueError\<close> when the rest is not the text of a number.
\<close>

theorem amount_string_is_converted:
  assumes "strip_fence (strip block) = Inr cleaned"
    and "json_loads (find_json cleaned) = Inr (PDict d)"
    and "map_of d ''Amount'' = Some (PStr a)"
  shows "parse_response block =
           (case py_float (filter (\<lambda>c. c \<noteq> CHR '','' \<and> c \<noteq> CHR ''$'') a) of
              Inl e \<Rightarrow> Inl ValueError
            | Inr x \<Rightarrow> Inr (AList.update ''Amount'' (PFloat x) d)) \<and>
         (case parse_response block of
            Inl e \<Rightarrow> e = ValueError
          | Inr r \<Rightarrow> \<exists>x. map_of r ''Amount'' = Some (PFloat x))"
  using assms
  by (auto simp: parse_response_def ensure_amount_def replace_both update_conv'
      split: sum.splits dest: py_float_error)

theorem amount_string_is_converted_witness:
  \<open>strip_fence (strip ''{"Amount": "$1,204.50"}'') = Inr ''{"Amount": "$1,204.50"}'' \<and>
    json_loads (find_json ''{"Amount": "$1,204.50"}'') =
      Inr (PDict [(''Amount'', PStr ''$1,204.50'')]) \<and>
    map_of [(''Amount'', PStr ''$1,204.50'')] ''Amount'' = Some (PStr ''$1,204.50'') \<and>
    parse_response ''{"Amount": "$1,204.50"}'' = Inr [(''Amount'', PFloat (Fin 1204.50))]\<close>
proof -
  have h1: \<open>strip_fence (strip ''{"Amount": "$1,204.50"}'') = Inr ''{"Amount": "$1,204.50"}''\<close>
    by (simp add: text_defs)
  have h2: \<open>json_loads (find_json ''{"Amount": "$1,204.50"}'') =
      Inr (PDict [(''Amount'', PStr ''$1,204.50'')])\<close>
    by (simp add: text_defs number_defs json_defs)
  have h3: "map_of [(''Amount'', PStr ''$1,204.50'')] ''Amount'' = Some (PStr ''$1,204.50'')"
    by simp
  show ?thesis
    using h1 h2 h3 amount_string_is_converted [OF h1 h2 h3]
    by (simp add: text_defs number_defs)
qed

text \<open>
  Claim C5 at its failing input. The response \<^verbatim>\<open>{"Payer": "Acme", "Amount": null}\<close> is
  returned by \<^verbatim>\<open>parse_check\<close> as a record whose \<^verbatim>\<open>Amount\<close> is \<^verbatim>\<open>None\<close>: only a string is
  converted, although the comment on line 161 is "Ensure Amount is a float". The CSV
  writer then raises \<^verbatim>\<open>TypeError\<close> on that record.
\<close>

theorem null_amount_is_returned:
  \<open>parse_check (\<lambda>img_b64 media_type. Inr [''{"Payer": "Acme", "Amount": null}''])
      ''page1'' ''image/png'' =
      Inr [(''Payer'', PStr ''Acme''), (''Amount'', PNone)] \<and>
    generate_csv [[(''Payer'', PStr ''Acme''), (''Amount'', PNone)]] = Inl TypeError\<close>
  by (simp add: text_defs number_defs json_defs extractor_defs generate_csv_def get_def
      format_2f_def format_with_def number_of_def)

lemma ensure_amount_keys:
  assumes "ensure_amount v = Inr r"
  shows "\<exists>d. v = PDict d \<and> map fst r = map fst d \<and>
           (\<forall>k. k \<noteq> ''Amount'' \<longrightarrow> map_of r k = map_of d k) \<and>
           (\<forall>k. map_of d k = None \<longrightarrow> map_of r k = None)"
proof (cases v)
  case (PDict d)
  show ?thesis
  proof (cases "\<exists>a. map_of d ''Amount'' = Some (PStr a)")
    case True
    then obtain a where a: "map_of d ''Amount'' = Some (PStr a)" by blast
    then have mem: "''Amount'' \<in> fst ` set d"
      by (metis domI dom_map_of_conv_image_fst)
    from assms PDict a obtain x where r: "r = AList.update ''Amount'' (PFloat x) d"
      by (auto simp: ensure_amount_def split: sum.splits)
    show ?thesis using PDict a mem r
      by (auto simp: update_conv' update_keys)
  next
    case False
    with assms PDict have "r = d"
      by (auto simp: ensure_amount_def split: option.splits pyval.splits)
    with PDict show ?thesis by simp
  qed
qed (use assms in \<open>simp_all add: ensure_amount_def\<close>)

text \<open>
  Claim C6, as the code has it. A record returned by the extractor has exactly the keys
  of the decoded JSON object, in their order, and the values of that object except for
  a converted \<^verbatim>\<open>Amount\<close>: no field is added. A key that the object lacks is absent from
  the record, and reads as the default only where a report writer calls \<^verbatim>\<open>get\<close>.
\<close>

theorem extractor_adds_no_field:
  assumes "parse_response block = Inr r"
  shows "\<exists>cleaned d. strip_fence (strip block) = Inr cleaned \<and>
           json_loads (find_json cleaned) = Inr (PDict d) \<and>
           map fst r = map fst d \<and>
           (\<forall>k. k \<noteq> ''Amount'' \<longrightarrow> map_of r k = map_of d k) \<and>
           (\<forall>k dflt. map_of d k = None \<longrightarrow> get r k dflt = dflt)"
proof -
  from assms obtain cleaned v where t: "strip_fence (strip block) = Inr cleaned"
    and v: "json_loads (find_json cleaned) = Inr v" and e: "ensure_amount v = Inr r"
    by (auto simp: parse_response_def split: sum.splits)
  from ensure_amount_keys [OF e] obtain d where "v = PDict d" and "map fst r = map fst d"
    and "\<forall>k. k \<noteq> ''Amount'' \<longrightarrow> map_of r k = map_of d k"
    and "\<forall>k. map_of d k = None \<longrightarrow> map_of r k = None" by blast
  with t v show ?thesis by (auto simp: get_def)
qed

theorem extractor_adds_no_field_witness:
  \<open>parse_response ''{"Payer": "Acme", "Amount": 10}'' =
      Inr [(''Payer'', PStr ''Acme''), (''Amount'', PInt 10)] \<and>
    (\<exists>cleaned d. strip_fence (strip ''{"Payer": "Acme", "Amount": 10}'') = Inr cleaned \<and>
       json_loads (find_json cleaned) = Inr (PDict d) \<and>
       map fst [(''Payer'', PStr ''Acme''), (''Amount'', PInt 10)] = map fst d \<and>
       get [(''Payer'', PStr ''Acme''), (''Amount'', PInt 10)] ''Date'' (PStr []) = PStr [])\<close>
proof -
  have h: \<open>parse_response ''{"Payer": "Acme", "Amount": 10}'' =
      Inr [(''Payer'', PStr ''Acme''), (''Amount'', PInt 10)]\<close>
    by (rule response_ok)
  have g: "get [(''Payer'', PStr ''Acme''), (''Amount'', PInt 10)] ''Date'' (PStr []) = PStr []"
    by (simp add: get_def)
  from extractor_adds_no_field [OF h] g h show ?thesis
    by blast
qed

text \<open>
  Claim C6 as stated fails: for a response with two of the eight fields the returned
  record has those two keys only; \<^verbatim>\<open>Date\<close> and the other five are absent, not defaulted.
\<close>

theorem missing_fields_counterexample:
  \<open>parse_check (\<lambda>img_b64 media_type. Inr [''{"Payer": "Acme", "Amount": 10}''])
      ''page1'' ''image/png'' =
      Inr [(''Payer'', PStr ''Acme''), (''Amount'', PInt 10)] \<and>
    map_of [(''Payer'', PStr ''Acme''), (''Amount'', PInt 10)] ''Date'' = None\<close>
  by (simp add: parse_check_def item_def response_ok)

section \<open>Locating and decoding the JSON object\<close>

lemma emit_error: "emit t r = Inl e \<Longrightarrow> r = Inl e"
  by (simp add: emit_def split: sum.splits)

lemma emit_word_error: "emit_word w r = Inl e \<Longrightarrow> e = JSONDecodeError \<or> r = Inl e"
  by (auto simp: emit_word_def dest: emit_error split: option.splits)

lemma scan_error: "scan st s = Inl e \<Longrightarrow> e = JSONDecodeError"
  by (induction st s rule: scan.induct)
    (auto dest!: emit_error emit_word_error split: if_splits option.splits)

lemma run_error: "run ts s = Inl e \<Longrightarrow> e = JSONDecodeError"
  by (induction ts arbitrary: s)
    (auto simp: finish_def split: option.splits prod.splits expect.splits list.splits)

lemma json_loads_error: "json_loads s = Inl e \<Longrightarrow> e = JSONDecodeError"
  by (auto simp: json_loads_def split: sum.splits dest: scan_error run_error)

lemma match_at_iff:
  "match_at s = Some m \<longleftrightarrow>
     (\<exists>body post. s = CHR ''{'' # body @ CHR ''}'' # post \<and> list_all not_brace body \<and>
        m = CHR ''{'' # body @ ''}'')"
proof
  assume a: "match_at s = Some m"
  then obtain cs where s: "s = CHR ''{'' # cs"
    by (auto simp: match_at_def split: list.splits if_splits)
  with a obtain post where d: "dropWhile not_brace cs = CHR ''}'' # post"
    and m: "m = CHR ''{'' # takeWhile not_brace cs @ ''}''"
    by (auto simp: match_at_def split: list.splits if_splits)
  have "cs = takeWhile not_brace cs @ CHR ''}'' # post"
    using takeWhile_dropWhile_id [of not_brace cs] d by simp
  moreover have "list_all not_brace (takeWhile not_brace cs)"
    by (auto simp: list_all_iff dest: set_takeWhileD)
  ultimately show "\<exists>body post. s = CHR ''{'' # body @ CHR ''}'' # post \<and>
      list_all not_brace body \<and> m = CHR ''{'' # body @ ''}''"
    using s m by blast
next
  assume "\<exists>body post. s = CHR ''{'' # body @ CHR ''}'' # post \<and> list_all not_brace body \<and>
        m = CHR ''{'' # body @ ''}''"
  then obtain body post where s: "s = CHR ''{'' # body @ CHR ''}'' # post"
    and b: "list_all not_brace body" and m: "m = CHR ''{'' # body @ ''}''" by blast
  have nb: "\<not> not_brace (CHR ''}'')" by (simp add: not_brace_def)
  have t: "takeWhile not_brace (body @ CHR ''}'' # post) = body"
    using b nb by (simp add: takeWhile_tail list_all_iff)
  have d: "dropWhile not_brace (body @ CHR ''}'' # post) = CHR ''}'' # post"
    using b nb by (simp add: dropWhile_append3 list_all_iff)
  show "match_at s = Some m"
    using s m t d by (simp add: match_at_def)
qed

lemma re_search_Some:
  "re_search s = Some m \<Longrightarrow>
     \<exists>pre post. s = pre @ m @ post \<and> match_at (m @ post) = Some m \<and>
       (\<forall>k < length pre. match_at (drop k s) = None)"
proof (induction s)
  case Nil
  then show ?case by simp
next
  case (Cons c cs)
  show ?case
  proof (cases "match_at (c # cs)")
    case (Some m')
    with Cons.prems have mm: "m' = m" by simp
    from Some obtain body post where "c # cs = CHR ''{'' # body @ CHR ''}'' # post"
      and "m' = CHR ''{'' # body @ ''}''"
      unfolding match_at_iff by blast
    then have "c # cs = [] @ m @ post" using mm by simp
    moreover have "match_at (m @ post) = Some m" using Some mm calculation by simp
    ultimately show ?thesis by (metis length_0_conv not_less_zero list.size(3))
  next
    case None
    with Cons.prems have "re_search cs = Some m" by simp
    from Cons.IH [OF this] obtain pre post where p: "cs = pre @ m @ post"
      and q: "match_at (m @ post) = Some m"
      and r: "\<forall>k < length pre. match_at (drop k cs) = None" by blast
    have "\<forall>k < length (c # pre). match_at (drop k (c # cs)) = None"
    proof (intro allI impI)
      fix k assume k: "k < length (c # pre)"
      show "match_at (drop k (c # cs)) = None"
      proof (cases k)
        case 0
        then show ?thesis using None by simp
      next
        case (Suc j)
        then show ?thesis using k r by simp
      qed
    qed
    moreover have "c # cs = (c # pre) @ m @ post" using p by simp
    ultimately show ?thesis using q by blast
  qed
qed

lemma re_search_None:
  "re_search s = None \<Longrightarrow> match_at (drop k s) = None"
proof (induction s arbitrary: k)
  case Nil
  then show ?case by (simp add: match_at_def)
next
  case (Cons c cs)
  then show ?case
    by (cases k) (auto split: option.splits)
qed


text \<open>
  Claim C7, as the code has it. After the fence is stripped, the text handed to the
  decoder is the leftmost substring that opens with a brace, closes with a brace and has
  no brace in between (for nested objects an innermost one, not the first balanced
  one), or the whole text when there is no such substring. When the decoder rejects that
  text the extraction raises \<^verbatim>\<open>JSONDecodeError\<close>, and when it decodes to a value that is
  not an object it raises \<^verbatim>\<open>AttributeError\<close>; both are exceptions of the page, which the
  parse loop catches.
\<close>

theorem json_object_search:
  assumes "strip_fence (strip block) = Inr cleaned"
  shows "(\<forall>m. re_search cleaned = Some m \<longrightarrow>
            (\<exists>pre body post. cleaned = pre @ m @ post \<and> m = CHR ''{'' # body @ ''}'' \<and>
               list_all not_brace body \<and>
               (\<forall>pre' body' post'.
                  cleaned = pre' @ CHR ''{'' # body' @ CHR ''}'' # post' \<and>
                  list_all not_brace body' \<longrightarrow> length pre \<le> length pre')) \<and>
            parse_response block =
              (case json_loads m of Inl e \<Rightarrow> Inl JSONDecodeError | Inr v \<Rightarrow> ensure_amount v)) \<and>
         (re_search cleaned = None \<longrightarrow>
            (\<forall>pre' body' post'.
               list_all not_brace body' \<longrightarrow>
               cleaned \<noteq> pre' @ CHR ''{'' # body' @ CHR ''}'' # post') \<and>
            parse_response block =
              (case json_loads cleaned of
                 Inl e \<Rightarrow> Inl JSONDecodeError
               | Inr v \<Rightarrow> ensure_amount v)) \<and>
         (\<forall>v. (\<forall>d. v \<noteq> PDict d) \<longrightarrow> ensure_amount v = Inl AttributeError)"
proof (intro conjI allI impI)
  fix m assume m: "re_search cleaned = Some m"
  from re_search_Some [OF m] obtain pre post where c: "cleaned = pre @ m @ post"
    and q: "match_at (m @ post) = Some m"
    and r: "\<forall>k < length pre. match_at (drop k cleaned) = None" by blast
  from q obtain body where b: "m = CHR ''{'' # body @ ''}''" and f: "list_all not_brace body"
    unfolding match_at_iff by blast
  have "length pre \<le> length pre'"
    if "cleaned = pre' @ CHR ''{'' # body' @ CHR ''}'' # post' \<and> list_all not_brace body'"
    for pre' body' post'
  proof (rule ccontr)
    assume "\<not> length pre \<le> length pre'"
    then have "match_at (drop (length pre') cleaned) = None" using r by simp
    moreover have "drop (length pre') cleaned = CHR ''{'' # body' @ CHR ''}'' # post'"
      using that by simp
    ultimately have "match_at (CHR ''{'' # body' @ CHR ''}'' # post') = None" by simp
    moreover have "match_at (CHR ''{'' # body' @ CHR ''}'' # post') =
        Some (CHR ''{'' # body' @ ''}'')"
      unfolding match_at_iff using that by blast
    ultimately show False by simp
  qed
  with c b f show "\<exists>pre body post. cleaned = pre @ m @ post \<and> m = CHR ''{'' # body @ ''}'' \<and>
      list_all not_brace body \<and>
      (\<forall>pre' body' post'.
         cleaned = pre' @ CHR ''{'' # body' @ CHR ''}'' # post' \<and>
         list_all not_brace body' \<longrightarrow> length pre \<le> length pre')"
    by blast
  show "parse_response block =
      (case json_loads m of Inl e \<Rightarrow> Inl JSONDecodeError | Inr v \<Rightarrow> ensure_amount v)"
    using assms m
    by (auto simp: parse_response_def find_json_def split: sum.splits dest: json_loads_error)
next
  assume n: "re_search cleaned = None"
  show "parse_response block =
      (case json_loads cleaned of Inl e \<Rightarrow> Inl JSONDecodeError | Inr v \<Rightarrow> ensure_amount v)"
    using assms n
    by (auto simp: parse_response_def find_json_def split: sum.splits dest: json_loads_error)
  fix pre' body' post' assume f: "list_all not_brace body'"
  show "cleaned \<noteq> pre' @ CHR ''{'' # body' @ CHR ''}'' # post'"
  proof
    assume c: "cleaned = pre' @ CHR ''{'' # body' @ CHR ''}'' # post'"
    have "match_at (drop (length pre') cleaned) = None"
      by (rule re_search_None [OF n])
    moreover have "drop (length pre') cleaned = CHR ''{'' # body' @ CHR ''}'' # post'"
      using c by simp
    moreover have "match_at (CHR ''{'' # body' @ CHR ''}'' # post') =
        Some (CHR ''{'' # body' @ ''}'')"
      unfolding match_at_iff using f by blast
    ultimately show False by simp
  qed
next
  fix v assume "\<forall>d. v \<noteq> PDict d"
  then show "ensure_amount v = Inl AttributeError"
    by (cases v) (simp_all add: ensure_amount_def)
qed

theorem json_object_search_witness:
  \<open>strip_fence (strip ''Here is the data: {"Payer": "Acme", "Amount": 10} Thanks.'') =
      Inr ''Here is the data: {"Payer": "Acme", "Amount": 10} Thanks.'' \<and>
    re_search ''Here is the data: {"Payer": "Acme", "Amount": 10} Thanks.'' =
      Some ''{"Payer": "Acme", "Amount": 10}'' \<and>
    parse_response ''Here is the data: {"Payer": "Acme", "Amount": 10} Thanks.'' =
      Inr [(''Payer'', PStr ''Acme''), (''Amount'', PInt 10)]\<close>
proof -
  have h: \<open>strip_fence (strip ''Here is the data: {"Payer": "Acme", "Amount": 10} Thanks.'') =
      Inr ''Here is the data: {"Payer": "Acme", "Amount": 10} Thanks.''\<close>
    by (simp add: text_defs)
  have m: \<open>re_search ''Here is the data: {"Payer": "Acme", "Amount": 10} Thanks.'' =
      Some ''{"Payer": "Acme", "Amount": 10}''\<close>
    by (simp add: text_defs)
  have j: \<open>json_loads ''{"Payer": "Acme", "Amount": 10}'' =
      Inr (PDict [(''Payer'', PStr ''Acme''), (''Amount'', PInt 10)])\<close>
    by (simp add: number_defs json_defs)
  from json_object_search [OF h] m
  have \<open>parse_response ''Here is the data: {"Payer": "Acme", "Amount": 10} Thanks.'' =
      (case json_loads ''{"Payer": "Acme", "Amount": 10}'' of
         Inl e \<Rightarrow> Inl JSONDecodeError | Inr v \<Rightarrow> ensure_amount v)\<close>
    by blast
  with h m j show ?thesis by (simp add: ensure_amount_def)
qed

text \<open>
  Claim C7 as stated fails: the response below is one balanced JSON object, which the
  decoder accepts as a whole, but the pattern selects the nested object and the record
  returned is that of the nested object.
\<close>

theorem first_balanced_counterexample:
  \<open>spec_first_balanced ''{"Payer": {"name": "Acme"}, "Amount": 10}'' =
      Some ''{"Payer": {"name": "Acme"}, "Amount": 10}'' \<and>
    find_json ''{"Payer": {"name": "Acme"}, "Amount": 10}'' = ''{"name": "Acme"}'' \<and>
    parse_response ''{"Payer": {"name": "Acme"}, "Amount": 10}'' =
      Inr [(''name'', PStr ''Acme'')] \<and>
    json_loads ''{"Payer": {"name": "Acme"}, "Amount": 10}'' =
      Inr (PDict [(''Payer'', PDict [(''name'', PStr ''Acme'')]), (''Amount'', PInt 10)])\<close>
  by (simp add: text_defs number_defs json_defs extractor_defs)


section \<open>Sums and formats of amounts\<close>


lemmas csv_defs = generate_csv_def csv_row_def csv_total_row_def csv_header_def


















section \<open>The rows of the CSV report\<close>





section \<open>The total of the report\<close>






section \<open>Records that lack keys\<close>









end
